theory Spec2Isabelle
  imports Complex_Main "HOL-Library.Sublist"
begin

section \<open>Page-access gate (src/hooks/usePageAccess.tsx)\<close>

text \<open>
  A permission record of the table \<open>page_permissions\<close>. The field \<open>id\<close> of the source is
  called \<open>perm_id\<close> here.
\<close>

record PagePermission =
  perm_id :: string
  page_name :: string
  route :: string
  admin_access :: bool
  manager_access :: bool
  user_access :: bool

text \<open>The module-level cache: the whole table and the clock reading of its fetch.\<close>

record cache_entry =
  data :: "PagePermission list"
  timestamp :: int

definition CACHE_TTL :: int where
  "CACHE_TTL = 5 * 60 * 1000"

text \<open>
  What \<open>await supabase.from('page_permissions').select('*')\<close> gives: the pair
  \<open>{ data, error }\<close>, each of them possibly null, or a thrown exception.
\<close>

datatype fetch_result =
  Returned "PagePermission list option" "string option"
  | Thrown

text \<open>
  The state the hook exposes (\<open>hasAccess\<close> is \<open>null\<close> until a check has set it), and the
  world outside it: the cache slot and the number of queries sent to the store.
\<close>

record hook_state =
  hasAccess :: "bool option"
  loading :: bool

record world =
  permissionsCache :: "cache_entry option"
  storeQueries :: nat

text \<open>
  \<open>route === '/' ? '/dashboard' : route.replace(/\/$/, '')\<close>. The pattern has no flag, so
  \<open>$\<close> is the end of the input and one application removes one slash.
\<close>

definition stripTrailingSlash :: "string \<Rightarrow> string" where
  "stripTrailingSlash r = (if r \<noteq> [] \<and> last r = CHR ''/'' then butlast r else r)"

definition normalizedRoute :: "string \<Rightarrow> string" where
  "normalizedRoute r = (if r = ''/'' then ''/dashboard'' else stripTrailingSlash r)"

text \<open>The \<open>switch (userRole)\<close>: \<open>'user'\<close> and every other value fall to the default.\<close>

definition roleFlag :: "string option \<Rightarrow> PagePermission \<Rightarrow> bool" where
  "roleFlag userRole p =
     (if userRole = Some ''admin'' then admin_access p
      else if userRole = Some ''manager'' then manager_access p
      else user_access p)"

text \<open>
  The test \<open>permissionsCache && Date.now() - permissionsCache.timestamp < CACHE_TTL\<close>,
  giving the cached table when it holds.
\<close>

definition cachedPermissions :: "world \<Rightarrow> int \<Rightarrow> PagePermission list option" where
  "cachedPermissions w now =
     (case permissionsCache w of
        None \<Rightarrow> None
      | Some c \<Rightarrow> if now - timestamp c < CACHE_TTL then Some (data c) else None)"

text \<open>
  \<open>checkAccess\<close>. \<open>now\<close> is the reading of \<open>Date.now()\<close> at the cache test and \<open>fetchedAt\<close>
  the one stored with a fresh table; \<open>store\<close> is what the query would answer. The
  \<open>finally\<close> block clears \<open>loading\<close> on every path that entered the \<open>try\<close>; the
  \<open>catch\<close> block allows access.
\<close>

definition checkAccess ::
  "bool \<Rightarrow> bool \<Rightarrow> 'u option \<Rightarrow> string option \<Rightarrow> string \<Rightarrow> int \<Rightarrow> int \<Rightarrow> fetch_result
     \<Rightarrow> hook_state \<times> world \<Rightarrow> hook_state \<times> world" where
  "checkAccess authLoading roleLoading user userRole r now fetchedAt store sw =
     (let (s, w) = sw in
      if authLoading \<or> roleLoading then (s, w)
      else if user = None then (s\<lparr>hasAccess := Some False, loading := False\<rparr>, w)
      else
        let allow = s\<lparr>hasAccess := Some True, loading := False\<rparr>;
            decide = (\<lambda>permissions w'.
              case find (\<lambda>p. route p = normalizedRoute r) permissions of
                None \<Rightarrow> (allow, w')
              | Some permissionData \<Rightarrow>
                  (s\<lparr>hasAccess := Some (roleFlag userRole permissionData), loading := False\<rparr>, w'))
        in
          case cachedPermissions w now of
            Some permissions \<Rightarrow> decide permissions w
          | None \<Rightarrow>
              (let wq = w\<lparr>storeQueries := Suc (storeQueries w)\<rparr> in
               case store of
                 Thrown \<Rightarrow> (allow, wq)
               | Returned d (Some e) \<Rightarrow> (allow, wq)
               | Returned d None \<Rightarrow>
                   (let permissions = (case d of None \<Rightarrow> [] | Some ps \<Rightarrow> ps) in
                    decide permissions
                      (wq\<lparr>permissionsCache :=
                            Some \<lparr>data = permissions, timestamp = fetchedAt\<rparr>\<rparr>))))"

text \<open>
  The table that a check ends up deciding on, used to state the properties of the gate:
  the cached table while it is fresh, otherwise the fetched one (\<open>data || []\<close>); \<open>None\<close>
  when the fetch fails, by an error in the answer or by an exception.
\<close>

definition permissionsUsed :: "world \<Rightarrow> int \<Rightarrow> fetch_result \<Rightarrow> PagePermission list option" where
  "permissionsUsed w now store =
     (case cachedPermissions w now of
        Some ps \<Rightarrow> Some ps
      | None \<Rightarrow>
          (case store of
             Thrown \<Rightarrow> None
           | Returned d (Some e) \<Rightarrow> None
           | Returned None None \<Rightarrow> Some []
           | Returned (Some ps) None \<Rightarrow> Some ps))"

section \<open>Dates of the JavaScript runtime\<close>

text \<open>
  A \<open>Date\<close> is its time value, the milliseconds since the epoch in UTC. A wall-clock moment
  is counted the same way, in milliseconds since 1970-01-01 00:00 on the local clock. The
  calendar date (year, month, day of month) of a wall-clock moment is represented by its
  day number \<open>Day\<close>, which determines it and is determined by it; the rule of the \<open>Date\<close>
  constructor for years 0 to 99 is outside this representation.
\<close>

type_synonym instant = int

definition msPerSecond :: int where "msPerSecond = 1000"
definition msPerMinute :: int where "msPerMinute = 60000"
definition msPerHour :: int where "msPerHour = 3600000"
definition msPerDay :: int where "msPerDay = 86400000"

text \<open>
  A time zone, as the runtime and date-fns-tz take it from the IANA database: the offset
  from UTC in force at an instant, and the instant a wall-clock moment is read as. Both are
  parameters of the model. In a zone with daylight saving a wall-clock moment inside the
  spring gap is the local time of no instant, whatever \<open>instantOf\<close> answers for it.
\<close>

record zone =
  offsetAt :: "instant \<Rightarrow> int"
  instantOf :: "int \<Rightarrow> instant"

definition fixedZone :: "int \<Rightarrow> zone" where
  "fixedZone c = \<lparr>offsetAt = (\<lambda>t. c), instantOf = (\<lambda>w. w - c)\<rparr>"

definition UTC :: zone where
  "UTC = fixedZone 0"

definition Asia_Kolkata :: zone where
  "Asia_Kolkata = fixedZone (330 * msPerMinute)"

text \<open>
  America/New_York between November 2023 and November 2024, as the zone of the browser:
  UTC-5 until 2024-03-10T07:00:00Z (1710054000000), UTC-4 after it. The local clock jumps
  from 02:00 to 03:00 on 2024-03-10. A wall-clock moment before 03:00 of that day
  (1710039600000 on the local clock) is read with the offset before the change, as
  ECMAScript prescribes for the zone of the runtime. date-fns-tz reads a moment inside the
  gap one hour earlier, so this constant stands for New York as the zone of the browser
  only, never as the time zone selected in the form.
\<close>

definition America_New_York :: zone where
  "America_New_York =
     \<lparr>offsetAt = (\<lambda>t. if t < 1710054000000 then - 5 * msPerHour else - 4 * msPerHour),
      instantOf = (\<lambda>w. if w < 1710039600000 then w + 5 * msPerHour else w + 4 * msPerHour)\<rparr>"

text \<open>The abstract operations of ECMAScript on time values, and the \<open>Date\<close> methods built
  on them in the zone \<open>z\<close> of the browser.\<close>

definition LocalTime :: "zone \<Rightarrow> instant \<Rightarrow> int" where
  "LocalTime z t = t + offsetAt z t"

definition Day :: "int \<Rightarrow> int" where
  "Day w = w div msPerDay"

definition HourFromTime :: "int \<Rightarrow> int" where
  "HourFromTime w = (w div msPerHour) mod 24"

definition MinFromTime :: "int \<Rightarrow> int" where
  "MinFromTime w = (w div msPerMinute) mod 60"

definition SecFromTime :: "int \<Rightarrow> int" where
  "SecFromTime w = (w div msPerSecond) mod 60"

definition msFromTime :: "int \<Rightarrow> int" where
  "msFromTime w = w mod msPerSecond"

definition MakeTime :: "int \<Rightarrow> int \<Rightarrow> int \<Rightarrow> int \<Rightarrow> int" where
  "MakeTime h m s ms = h * msPerHour + m * msPerMinute + s * msPerSecond + ms"

definition MakeDate :: "int \<Rightarrow> int \<Rightarrow> int" where
  "MakeDate day time = day * msPerDay + time"

definition getHours :: "zone \<Rightarrow> instant \<Rightarrow> int" where
  "getHours z t = HourFromTime (LocalTime z t)"

definition getMinutes :: "zone \<Rightarrow> instant \<Rightarrow> int" where
  "getMinutes z t = MinFromTime (LocalTime z t)"

text \<open>\<open>getFullYear\<close>, \<open>getMonth\<close> and \<open>getDate\<close> together, as a day number.\<close>

definition localDay :: "zone \<Rightarrow> instant \<Rightarrow> int" where
  "localDay z t = Day (LocalTime z t)"

definition setHours :: "zone \<Rightarrow> instant \<Rightarrow> int \<Rightarrow> int \<Rightarrow> int \<Rightarrow> int \<Rightarrow> instant" where
  "setHours z t h m s ms = instantOf z (MakeDate (Day (LocalTime z t)) (MakeTime h m s ms))"

definition setMinutes :: "zone \<Rightarrow> instant \<Rightarrow> int \<Rightarrow> instant" where
  "setMinutes z t m =
     (let lt = LocalTime z t
      in instantOf z (MakeDate (Day lt) (MakeTime (HourFromTime lt) m (SecFromTime lt) (msFromTime lt))))"

text \<open>\<open>new Date(year, month, day)\<close>: local midnight of a calendar date.\<close>

definition newDateYMD :: "zone \<Rightarrow> int \<Rightarrow> instant" where
  "newDateYMD z day = instantOf z (MakeDate day 0)"

text \<open>
  date-fns-tz. \<open>fromZonedTime (date, timeZone)\<close> reads the local fields of \<open>date\<close> as a
  wall-clock moment of \<open>timeZone\<close> and gives its instant; \<open>toZonedTime (date, timeZone)\<close>
  gives the \<open>Date\<close> whose local fields are the wall-clock moment of \<open>date\<close> in \<open>timeZone\<close>.
\<close>

definition fromZonedTime :: "zone \<Rightarrow> instant \<Rightarrow> zone \<Rightarrow> instant" where
  "fromZonedTime z date timeZone = instantOf timeZone (LocalTime z date)"

definition toZonedTime :: "zone \<Rightarrow> instant \<Rightarrow> zone \<Rightarrow> instant" where
  "toZonedTime z date timeZone = instantOf z (LocalTime timeZone date)"

text \<open>\<open>Math.round (a / b)\<close> for integers \<open>a\<close> and \<open>b > 0\<close>: halves go up.\<close>

definition Math_round_ratio :: "int \<Rightarrow> int \<Rightarrow> int" where
  "Math_round_ratio a b = (2 * a + b) div (2 * b)"

section \<open>Strings of times of day\<close>

definition digitChar :: "nat \<Rightarrow> char" where
  "digitChar d = ''0123456789'' ! d"

fun indexOf :: "'a \<Rightarrow> 'a list \<Rightarrow> nat option" where
  "indexOf x [] = None"
| "indexOf x (y # ys) = (if x = y then Some 0 else map_option Suc (indexOf x ys))"

definition digitVal :: "char \<Rightarrow> nat option" where
  "digitVal c = indexOf c ''0123456789''"

text \<open>\<open>n.toString()\<close> for a natural number.\<close>

fun toString :: "nat \<Rightarrow> string" where
  "toString n = (if n < 10 then [digitChar n] else toString (n div 10) @ [digitChar (n mod 10)])"

definition padStart :: "nat \<Rightarrow> char \<Rightarrow> string \<Rightarrow> string" where
  "padStart len c s = replicate (len - length s) c @ s"

text \<open>
  \<open>Number (s)\<close> on the strings that occur here: the empty string is 0, a string of
  decimal digits is its value, and anything else is NaN, written \<open>None\<close> (signs, blanks,
  fractions and exponents, which \<open>Number\<close> also reads, never reach it: every time of day in
  the component is a slot or an output of \<open>format (d, "HH:mm")\<close>).
\<close>

fun digitsValue :: "nat \<Rightarrow> string \<Rightarrow> nat option" where
  "digitsValue acc [] = Some acc"
| "digitsValue acc (c # cs) =
     (case digitVal c of None \<Rightarrow> None | Some d \<Rightarrow> digitsValue (10 * acc + d) cs)"

definition Number_js :: "string \<Rightarrow> int option" where
  "Number_js s = map_option int (digitsValue 0 s)"

text \<open>\<open>s.split (sep)\<close> for a separator of one character.\<close>

fun split_js :: "char \<Rightarrow> string \<Rightarrow> string list" where
  "split_js sep [] = [[]]"
| "split_js sep (c # cs) =
     (if c = sep then [] # split_js sep cs
      else (case split_js sep cs of [] \<Rightarrow> [[c]] | p # ps \<Rightarrow> (c # p) # ps))"

text \<open>
  \<open>const [h, m] = time.split(":").map(Number)\<close>: a missing part is \<open>undefined\<close>, whose
  number is NaN.
\<close>

definition numberAt :: "string list \<Rightarrow> nat \<Rightarrow> int option" where
  "numberAt parts i = (if i < length parts then Number_js (parts ! i) else None)"

definition parseHM :: "string \<Rightarrow> int option \<times> int option" where
  "parseHM time = (let parts = split_js CHR '':'' time in (numberAt parts 0, numberAt parts 1))"

text \<open>The string \<open>`${h}:${m}`\<close> of two padded numbers, and date-fns' \<open>format (d, "HH:mm")\<close>.\<close>

definition hhmm :: "nat \<Rightarrow> nat \<Rightarrow> string" where
  "hhmm hour minute =
     padStart 2 CHR ''0'' (toString hour) @ '':'' @ padStart 2 CHR ''0'' (toString minute)"

definition formatHHmm :: "zone \<Rightarrow> instant \<Rightarrow> string" where
  "formatHHmm z d = hhmm (nat (getHours z d)) (nat (getMinutes z d))"

declare toString.simps [simp del]

section \<open>Meeting form (src/components/MeetingModal.tsx)\<close>

text \<open>
  The loops of \<open>generateTimeSlots\<close>: the inner one over the minutes 0, 15, 30, 45 of an
  hour, the outer one over the hours 0 to 23, each pushing to the end of \<open>slots\<close>.
\<close>

function minuteLoop :: "nat \<Rightarrow> nat \<Rightarrow> string list" where
  "minuteLoop hour minute =
     (if minute < 60 then hhmm hour minute # minuteLoop hour (minute + 15) else [])"
  by pat_completeness auto
termination
  by (relation "measure (\<lambda>(hour, minute). 60 - minute)") auto

function hourLoop :: "nat \<Rightarrow> string list" where
  "hourLoop hour = (if hour < 24 then minuteLoop hour 0 @ hourLoop (hour + 1) else [])"
  by pat_completeness auto
termination
  by (relation "measure (\<lambda>hour. 24 - hour)") auto

declare minuteLoop.simps [simp del]
declare hourLoop.simps [simp del]

definition generateTimeSlots :: "string list" where
  "generateTimeSlots = hourLoop 0"

definition TIME_SLOTS :: "string list" where
  "TIME_SLOTS = generateTimeSlots"

text \<open>The \<open>k\<close>-th quarter of an hour of the day, as a slot.\<close>

definition slotOf :: "nat \<Rightarrow> string" where
  "slotOf k = hhmm (k div 4) (15 * (k mod 4))"

text \<open>A stored meeting; \<open>start_time\<close> and \<open>end_time\<close> are ISO strings of instants, kept
  here as the instants they denote (\<open>new Date (s)\<close> and \<open>toISOString\<close> are inverse to each
  other on them). The field \<open>id\<close> of the source is \<open>meeting_id\<close>.\<close>

record Meeting =
  meeting_id :: string
  subject :: string
  start_time :: instant
  end_time :: instant
  status :: string

text \<open>The date and time state of the form.\<close>

record form_state =
  timezone :: zone
  startDate :: "instant option"
  startTime :: string
  duration :: string

datatype error = RangeError

text \<open>
  \<open>handleTimezoneChange\<close>. An empty \<open>startTime\<close> is falsy. With a time that does not parse
  the date is invalid and \<open>format\<close> throws \<open>RangeError\<close>.
\<close>

definition handleTimezoneChange :: "zone \<Rightarrow> form_state \<Rightarrow> zone \<Rightarrow> error + form_state" where
  "handleTimezoneChange z st newTimezone =
     (case startDate st of
        None \<Rightarrow> Inr (st\<lparr>timezone := newTimezone\<rparr>)
      | Some d \<Rightarrow>
          if startTime st = [] then Inr (st\<lparr>timezone := newTimezone\<rparr>)
          else
            (case parseHM (startTime st) of
               (Some h, Some m) \<Rightarrow>
                 (let dateInOldTz = setHours z d h m 0 0;
                      utcTime = fromZonedTime z dateInOldTz (timezone st);
                      timeInNewTz = toZonedTime z utcTime newTimezone
                  in Inr (st\<lparr>startDate := Some timeInNewTz,
                              startTime := formatHHmm z timeInNewTz,
                              timezone := newTimezone\<rparr>))
             | _ \<Rightarrow> Inl RangeError))"

text \<open>
  \<open>getAvailableTimeSlots\<close>, with \<open>now\<close> and \<open>today\<close> of the component. A comparison with
  NaN is false.
\<close>

definition slotIsLater :: "int \<Rightarrow> int \<Rightarrow> string \<Rightarrow> bool" where
  "slotIsLater currentHour currentMinute slot =
     (case parseHM slot of (h, m) \<Rightarrow>
        if (case h of None \<Rightarrow> False | Some h' \<Rightarrow> h' > currentHour) then True
        else if h = Some currentHour \<and> (case m of None \<Rightarrow> False | Some m' \<Rightarrow> m' > currentMinute)
        then True
        else False)"

definition getAvailableTimeSlots :: "zone \<Rightarrow> instant \<Rightarrow> instant option \<Rightarrow> string list" where
  "getAvailableTimeSlots z now selectedDate =
     (case selectedDate of
        None \<Rightarrow> TIME_SLOTS
      | Some d \<Rightarrow>
          (let today = newDateYMD z (localDay z now);
               selectedDateOnly = newDateYMD z (localDay z d);
               isToday = (selectedDateOnly = today)
           in if \<not> isToday then TIME_SLOTS
              else filter (slotIsLater (getHours z now) (getMinutes z now)) TIME_SLOTS))"

text \<open>\<open>calculateEndDateTime\<close>; \<open>None\<close> is the invalid date of a time that does not parse.\<close>

definition calculateEndDateTime :: "zone \<Rightarrow> instant \<Rightarrow> string \<Rightarrow> int \<Rightarrow> instant option" where
  "calculateEndDateTime z start time durationMinutes =
     (case parseHM time of
        (Some h, Some m) \<Rightarrow>
          (let endDateTime = setHours z start h m 0 0
           in Some (setMinutes z endDateTime (getMinutes z endDateTime + durationMinutes)))
      | _ \<Rightarrow> None)"

text \<open>
  The effect that opens the form on a stored meeting: the three \<open>set\<close> calls on the date
  and time state. The time zone of the form is not touched.
\<close>

definition loadMeeting :: "zone \<Rightarrow> Meeting \<Rightarrow> form_state \<Rightarrow> form_state" where
  "loadMeeting z meeting st =
     (let start = start_time meeting;
          endInstant = end_time meeting;
          durationMs = endInstant - start;
          durationMinutes = Math_round_ratio durationMs (1000 * 60)
      in st\<lparr>startDate := Some start,
            startTime := formatHHmm z start,
            duration := (if durationMinutes \<le> 30 then ''30'' else ''60'')\<rparr>)"

text \<open>
  \<open>buildISODateTime\<close> and \<open>buildEndISODateTime\<close>, with the \<open>timezone\<close> of the form as the
  argument \<open>tz\<close>. \<open>Inr None\<close> is the empty string of a missing date, \<open>Inr (Some t)\<close> the ISO string
  of the instant \<open>t\<close>; \<open>toISOString\<close> throws \<open>RangeError\<close> on an invalid date.
\<close>

definition buildISODateTime :: "zone \<Rightarrow> zone \<Rightarrow> instant option \<Rightarrow> string \<Rightarrow> error + instant option" where
  "buildISODateTime z tz date time =
     (case date of
        None \<Rightarrow> Inr None
      | Some d \<Rightarrow>
          (case parseHM time of
             (Some h, Some m) \<Rightarrow>
               (let dt = setHours z d h m 0 0;
                    utcTime = fromZonedTime z dt tz
                in Inr (Some utcTime))
           | _ \<Rightarrow> Inl RangeError))"

definition buildEndISODateTime ::
  "zone \<Rightarrow> zone \<Rightarrow> instant option \<Rightarrow> string \<Rightarrow> int \<Rightarrow> error + instant option" where
  "buildEndISODateTime z tz date time durationMinutes =
     (case date of
        None \<Rightarrow> Inr None
      | Some d \<Rightarrow>
          (case calculateEndDateTime z d time durationMinutes of
             Some endDateTime \<Rightarrow> Inr (Some (fromZonedTime z endDateTime tz))
           | None \<Rightarrow> Inl RangeError))"

text \<open>
  A wall-clock moment \<open>w\<close> is a local time of the zone when the instant the zone reads it
  as shows \<open>w\<close> on the local clock again.
\<close>

definition isLocalTimeOf :: "zone \<Rightarrow> int \<Rightarrow> bool" where
  "isLocalTimeOf z w = (LocalTime z (instantOf z w) = w)"

section \<open>Calendar grid (src/components/meetings/MeetingsCalendarView.tsx)\<close>

definition WORK_START_HOUR :: int where "WORK_START_HOUR = 8"
definition WORK_END_HOUR :: int where "WORK_END_HOUR = 20"

text \<open>The result of \<open>getMeetingPosition\<close>; its field \<open>top\<close> is \<open>top_offset\<close> here.\<close>

record position =
  top_offset :: int
  height :: int

definition getMeetingPosition :: "zone \<Rightarrow> Meeting \<Rightarrow> position" where
  "getMeetingPosition z meeting =
     (let startTime = start_time meeting;
          endTime = end_time meeting;
          startHour = getHours z startTime;
          startMinute = getMinutes z startTime;
          endHour = getHours z endTime;
          endMinute = getMinutes z endTime;
          top = (startHour - WORK_START_HOUR) * 60 + startMinute;
          height = ((endHour - startHour) * 60) + (endMinute - startMinute)
      in \<lparr>top_offset = top, height = max height 30\<rparr>)"

text \<open>
  The callback of \<open>dayMeetings.map\<close> in a day column: \<open>null\<close> for a meeting that is left
  out, else the block with its position.
\<close>

definition renderMeeting :: "zone \<Rightarrow> Meeting \<Rightarrow> (Meeting \<times> position) option" where
  "renderMeeting z meeting =
     (let p = getMeetingPosition z meeting
      in if top_offset p < 0 \<or> top_offset p > (WORK_END_HOUR - WORK_START_HOUR) * 60 then None
         else Some (meeting, p))"

definition renderColumn :: "zone \<Rightarrow> Meeting list \<Rightarrow> (Meeting \<times> position) option list" where
  "renderColumn z dayMeetings = map (renderMeeting z) dayMeetings"

text \<open>\<open>CurrentTimeIndicator\<close>: \<open>null\<close>, or the marker at its \<open>top\<close>.\<close>

definition CurrentTimeIndicator :: "zone \<Rightarrow> instant \<Rightarrow> int option" where
  "CurrentTimeIndicator z now =
     (let hour = getHours z now;
          minute = getMinutes z now
      in if hour < WORK_START_HOUR \<or> hour \<ge> WORK_END_HOUR then None
         else Some ((hour - WORK_START_HOUR) * 60 + minute))"

section \<open>Properties of the page-access gate\<close>

lemma stripTrailingSlash_snoc: "stripTrailingSlash (r @ ''/'') = r"
  by (simp add: stripTrailingSlash_def)

lemma stripTrailingSlash_id: "\<not> suffix ''/'' r \<Longrightarrow> stripTrailingSlash r = r"
  by (auto simp: stripTrailingSlash_def suffix_def) (metis append_butlast_last_id)

lemma normalizedRoute_twice:
  "normalizedRoute (normalizedRoute r) = normalizedRoute r \<longleftrightarrow> \<not> suffix ''//'' r"
proof (cases "suffix ''/'' r")
  case False
  then have "\<not> suffix ''//'' r" by (auto simp: suffix_def)
  moreover from False have "r \<noteq> ''/''" by auto
  ultimately show ?thesis using False by (simp add: normalizedRoute_def stripTrailingSlash_id)
next
  case True
  then obtain p where r: "r = p @ ''/''" by (auto simp: suffix_def)
  show ?thesis
  proof (cases "p = []")
    case True
    with r show ?thesis by (simp add: normalizedRoute_def stripTrailingSlash_def suffix_def)
  next
    case pne: False
    have first: "normalizedRoute r = p"
      using r pne by (simp add: normalizedRoute_def stripTrailingSlash_snoc)
    show ?thesis
    proof (cases "suffix ''/'' p")
      case True
      then obtain q where p: "p = q @ ''/''" by (auto simp: suffix_def)
      have "suffix ''//'' r" using r p by (simp add: suffix_def)
      moreover have "normalizedRoute p \<noteq> p"
        using p by (auto simp: normalizedRoute_def stripTrailingSlash_snoc)
      ultimately show ?thesis using first by simp
    next
      case False
      then have "\<not> suffix ''//'' r" using r by (auto simp: suffix_def)
      moreover have "normalizedRoute p = p"
        using False by (auto simp: normalizedRoute_def stripTrailingSlash_id)
      ultimately show ?thesis using first by simp
    qed
  qed
qed

text \<open>
  Claim C7, as amended. Route normalization maps the root route \<open>/\<close> to \<open>/dashboard\<close> and
  strips one trailing slash from any other route; a route without a trailing slash other
  than the root is left as it is. Normalizing a normalized route returns it unchanged
  exactly for the routes that do not end in two slashes.
\<close>

theorem normalizedRoute_idempotent_iff:
  "normalizedRoute ''/'' = ''/dashboard''
   \<and> (r \<noteq> [] \<longrightarrow> normalizedRoute (r @ ''/'') = r)
   \<and> (\<not> suffix ''/'' r \<longrightarrow> normalizedRoute r = r)
   \<and> (normalizedRoute (normalizedRoute r) = normalizedRoute r \<longleftrightarrow> \<not> suffix ''//'' r)"
proof -
  have "normalizedRoute ''/'' = ''/dashboard''"
    by (simp add: normalizedRoute_def)
  moreover have "r \<noteq> [] \<longrightarrow> normalizedRoute (r @ ''/'') = r"
    by (simp add: normalizedRoute_def stripTrailingSlash_snoc)
  moreover have "\<not> suffix ''/'' r \<longrightarrow> normalizedRoute r = r"
    by (auto simp: normalizedRoute_def stripTrailingSlash_id)
  ultimately show ?thesis using normalizedRoute_twice by blast
qed

theorem normalizedRoute_idempotent_iff_witness:
  "normalizedRoute (''/deals'' @ ''/'') = ''/deals''
   \<and> normalizedRoute ''/deals'' = ''/deals''
   \<and> normalizedRoute (normalizedRoute ''/deals/'') = normalizedRoute ''/deals/''"
  using normalizedRoute_idempotent_iff [of "''/deals''"]
    normalizedRoute_idempotent_iff [of "''/deals/''"]
  by (simp add: suffix_def)

text \<open>
  The claim as it is written fails on a route that ends in two slashes: the first
  normalization leaves one of them, which the second one removes.
\<close>

theorem normalizedRoute_not_idempotent:
  "normalizedRoute ''/deals//'' = ''/deals/''
   \<and> normalizedRoute (normalizedRoute ''/deals//'') = ''/deals''
   \<and> normalizedRoute (normalizedRoute ''/deals//'') \<noteq> normalizedRoute ''/deals//''"
  by (simp add: normalizedRoute_def stripTrailingSlash_def)

lemma permissionsUsed_cached:
  "cachedPermissions w now = Some ps \<Longrightarrow> permissionsUsed w now store = Some ps"
  by (simp add: permissionsUsed_def)

lemma permissionsUsed_fetch:
  "cachedPermissions w now = None \<Longrightarrow>
   permissionsUsed w now store =
     (case store of Thrown \<Rightarrow> None | Returned d (Some e) \<Rightarrow> None
      | Returned d None \<Rightarrow> Some (case d of None \<Rightarrow> [] | Some ps \<Rightarrow> ps))"
  by (simp add: permissionsUsed_def split: fetch_result.splits option.splits)

lemma find_no_record:
  "\<forall>p\<in>set ps. route p \<noteq> x \<Longrightarrow> find (\<lambda>p. route p = x) ps = None"
  by (simp add: find_None_iff)

lemma checkAccess_hasAccess:
  assumes "\<not> authLoading" "\<not> roleLoading" "user = Some u"
  shows "hasAccess (fst (checkAccess authLoading roleLoading user userRole r now fetchedAt store (s, w)))
     = Some (case permissionsUsed w now store of
               None \<Rightarrow> True
             | Some ps \<Rightarrow> (case find (\<lambda>p. route p = normalizedRoute r) ps of
                             None \<Rightarrow> True | Some p \<Rightarrow> roleFlag userRole p))"
proof (cases "cachedPermissions w now")
  case (Some ps)
  then show ?thesis using assms
    by (cases "find (\<lambda>p. route p = normalizedRoute r) ps")
       (simp_all add: checkAccess_def permissionsUsed_cached)
next
  case None
  show ?thesis
  proof (cases store)
    case Thrown
    then show ?thesis using assms None by (simp add: checkAccess_def permissionsUsed_fetch)
  next
    case (Returned d e)
    show ?thesis
    proof (cases e)
      case (Some err)
      then show ?thesis
        using assms None Returned by (simp add: checkAccess_def permissionsUsed_fetch)
    next
      case noerr: None
      show ?thesis using assms None Returned noerr
        by (cases "find (\<lambda>p. route p = normalizedRoute r) (case d of None \<Rightarrow> [] | Some ps \<Rightarrow> ps)")
           (simp_all add: checkAccess_def permissionsUsed_fetch)
    qed
  qed
qed

text \<open>
  Claim C6. For a check with an authenticated user, once auth and role loading have
  finished: when the fetch of the permissions fails, access is allowed; when the table in
  use has no record for the normalized route, access is allowed; when it has one, access is
  the flag of the first such record that the role selects, \<open>admin_access\<close> for \<open>admin\<close>,
  \<open>manager_access\<close> for \<open>manager\<close>, and \<open>user_access\<close> for any other or absent role.
\<close>

theorem checkAccess_role_gate:
  assumes "\<not> authLoading" "\<not> roleLoading" "user = Some u"
  shows "(permissionsUsed w now store = None \<longrightarrow>
            hasAccess (fst (checkAccess authLoading roleLoading user userRole r now fetchedAt store (s, w)))
              = Some True)
    \<and> (\<forall>ps. permissionsUsed w now store = Some ps \<longrightarrow>
          ((\<forall>p\<in>set ps. route p \<noteq> normalizedRoute r) \<longrightarrow>
             hasAccess (fst (checkAccess authLoading roleLoading user userRole r now fetchedAt store (s, w)))
               = Some True)
        \<and> (\<forall>p. find (\<lambda>p. route p = normalizedRoute r) ps = Some p \<longrightarrow>
             hasAccess (fst (checkAccess authLoading roleLoading user userRole r now fetchedAt store (s, w)))
               = Some (roleFlag userRole p)))
    \<and> roleFlag (Some ''admin'') q = admin_access q
    \<and> roleFlag (Some ''manager'') q = manager_access q
    \<and> (userRole \<noteq> Some ''admin'' \<and> userRole \<noteq> Some ''manager'' \<longrightarrow>
          roleFlag userRole q = user_access q)"
  unfolding checkAccess_hasAccess [OF assms]
  by (simp add: find_no_record roleFlag_def)

theorem checkAccess_role_gate_witness:
  "hasAccess (fst (checkAccess False False (Some ''u1'') (Some ''manager'') ''/deals/'' 1000 1000
      (Returned (Some [\<lparr>perm_id = ''1'', page_name = ''Deals'', route = ''/deals'',
                        admin_access = True, manager_access = False, user_access = True\<rparr>]) None)
      (\<lparr>hasAccess = None, loading = True\<rparr>, \<lparr>permissionsCache = None, storeQueries = 0\<rparr>)))
     = Some False
   \<and> hasAccess (fst (checkAccess False False (Some ''u1'') (Some ''manager'') ''/leads'' 1000 1000
      (Returned (Some [\<lparr>perm_id = ''1'', page_name = ''Deals'', route = ''/deals'',
                        admin_access = True, manager_access = False, user_access = True\<rparr>]) None)
      (\<lparr>hasAccess = None, loading = True\<rparr>, \<lparr>permissionsCache = None, storeQueries = 0\<rparr>)))
     = Some True
   \<and> hasAccess (fst (checkAccess False False (Some ''u1'') (Some ''manager'') ''/deals/'' 1000 1000
      (Returned None (Some ''network''))
      (\<lparr>hasAccess = None, loading = True\<rparr>, \<lparr>permissionsCache = None, storeQueries = 0\<rparr>)))
     = Some True"
  using
    checkAccess_role_gate [of False False "Some ''u1''" "''u1''"
      "\<lparr>permissionsCache = None, storeQueries = 0\<rparr>" 1000
      "Returned (Some [\<lparr>perm_id = ''1'', page_name = ''Deals'', route = ''/deals'',
                        admin_access = True, manager_access = False, user_access = True\<rparr>]) None"
      "Some ''manager''" "''/deals/''" 1000 "\<lparr>hasAccess = None, loading = True\<rparr>"]
    checkAccess_role_gate [of False False "Some ''u1''" "''u1''"
      "\<lparr>permissionsCache = None, storeQueries = 0\<rparr>" 1000
      "Returned (Some [\<lparr>perm_id = ''1'', page_name = ''Deals'', route = ''/deals'',
                        admin_access = True, manager_access = False, user_access = True\<rparr>]) None"
      "Some ''manager''" "''/leads''" 1000 "\<lparr>hasAccess = None, loading = True\<rparr>"]
    checkAccess_role_gate [of False False "Some ''u1''" "''u1''"
      "\<lparr>permissionsCache = None, storeQueries = 0\<rparr>" 1000
      "Returned None (Some ''network'')"
      "Some ''manager''" "''/deals/''" 1000 "\<lparr>hasAccess = None, loading = True\<rparr>"]
  by (simp add: permissionsUsed_def cachedPermissions_def normalizedRoute_def
        stripTrailingSlash_def roleFlag_def)

text \<open>
  Claim C10. With no authenticated user, once auth and role loading have finished, the
  check sets \<open>hasAccess\<close> to false for every route, whatever the cache holds and whatever the
  store would answer; the cache is left as it was and no query is sent.
\<close>

theorem checkAccess_no_user:
  assumes "\<not> authLoading" "\<not> roleLoading"
  shows "checkAccess authLoading roleLoading None userRole r now fetchedAt store (s, w)
         = (s\<lparr>hasAccess := Some False, loading := False\<rparr>, w)"
  using assms by (simp add: checkAccess_def)

theorem checkAccess_no_user_witness:
  "checkAccess False False (None :: string option) (Some ''admin'') ''/settings'' 1000 1000 Thrown
     (\<lparr>hasAccess = None, loading = True\<rparr>, \<lparr>permissionsCache = None, storeQueries = 0\<rparr>)
   = (\<lparr>hasAccess = Some False, loading = False\<rparr>, \<lparr>permissionsCache = None, storeQueries = 0\<rparr>)"
  using checkAccess_no_user [of False False "Some ''admin''" "''/settings''" 1000 1000 Thrown
      "\<lparr>hasAccess = None, loading = True\<rparr>" "\<lparr>permissionsCache = None, storeQueries = 0\<rparr>"]
  by simp

section \<open>Facts about time values and time strings\<close>


lemma getHours_range: "0 \<le> getHours z t \<and> getHours z t < 24"
  by (simp add: getHours_def HourFromTime_def)

lemma getMinutes_range: "0 \<le> getMinutes z t \<and> getMinutes z t < 60"
  by (simp add: getMinutes_def MinFromTime_def)

lemma wall_fields:
  assumes "0 \<le> h" "h < 24" "0 \<le> m" "m < 60"
  shows "Day (MakeDate D (MakeTime h m 0 0)) = D"
    and "HourFromTime (MakeDate D (MakeTime h m 0 0)) = h"
    and "MinFromTime (MakeDate D (MakeTime h m 0 0)) = m"
proof -
  let ?w = "MakeDate D (MakeTime h m 0 0)"
  have a: "?w = D * 86400000 + (h * 3600000 + m * 60000)"
    by (simp add: MakeDate_def MakeTime_def msPerDay_def msPerHour_def msPerMinute_def)
  have r: "0 \<le> h * 3600000 + m * 60000" "h * 3600000 + m * 60000 < 86400000"
    using assms by auto
  show "Day ?w = D"
    unfolding a Day_def msPerDay_def using r by (simp add: div_pos_pos_trivial)
  have b: "?w = (D * 24 + h) * 3600000 + m * 60000" unfolding a by simp
  have "?w div 3600000 = D * 24 + h"
    unfolding b using assms by (simp add: div_pos_pos_trivial)
  then show "HourFromTime ?w = h"
    unfolding HourFromTime_def msPerHour_def using assms by (simp add: mod_pos_pos_trivial)
  have c: "?w = (D * 1440 + h * 60 + m) * 60000" unfolding a by simp
  have "?w div 60000 = D * 1440 + h * 60 + m" unfolding c by simp
  moreover have "(D * 1440 + h * 60 + m) mod 60 = m"
  proof -
    have "(D * 1440 + h * 60 + m) = m + (D * 24 + h) * 60" by simp
    then have "(D * 1440 + h * 60 + m) mod 60 = m mod 60" by (simp only: mod_mult_self1)
    then show ?thesis using assms by (simp add: mod_pos_pos_trivial)
  qed
  ultimately show "MinFromTime ?w = m"
    unfolding MinFromTime_def msPerMinute_def by simp
qed

lemma wall_decompose:
  "MakeDate (Day w) (MakeTime (HourFromTime w) (MinFromTime w) (SecFromTime w) (msFromTime w)) = w"
proof -
  define s where "s = w div 1000"
  define mi where "mi = s div 60"
  define hr where "hr = mi div 60"
  define dy where "dy = hr div 24"
  have 1: "w div 60000 = mi" unfolding mi_def s_def by (simp add: zdiv_zmult2_eq [symmetric])
  have 2: "w div 3600000 = hr" unfolding hr_def 1 [symmetric] by (simp add: zdiv_zmult2_eq [symmetric])
  have 3: "w div 86400000 = dy" unfolding dy_def 2 [symmetric] by (simp add: zdiv_zmult2_eq [symmetric])
  have "w = 1000 * s + w mod 1000" unfolding s_def by simp
  moreover have "s = 60 * mi + s mod 60" unfolding mi_def by simp
  moreover have "mi = 60 * hr + mi mod 60" unfolding hr_def by simp
  moreover have "hr = 24 * dy + hr mod 24" unfolding dy_def by simp
  ultimately have "w = dy * 86400000 + (hr mod 24) * 3600000 + (mi mod 60) * 60000 + (s mod 60) * 1000 + w mod 1000"
    by linarith
  then show ?thesis
    unfolding MakeDate_def MakeTime_def Day_def HourFromTime_def MinFromTime_def SecFromTime_def
      msFromTime_def msPerDay_def msPerHour_def msPerMinute_def msPerSecond_def 1 2 3 s_def [symmetric]
    by simp
qed

lemma setMinutes_shift:
  "setMinutes z t (getMinutes z t + k) = instantOf z (LocalTime z t + k * msPerMinute)"
proof -
  let ?lt = "LocalTime z t"
  have "MakeDate (Day ?lt) (MakeTime (HourFromTime ?lt) (MinFromTime ?lt + k) (SecFromTime ?lt) (msFromTime ?lt))
        = MakeDate (Day ?lt) (MakeTime (HourFromTime ?lt) (MinFromTime ?lt) (SecFromTime ?lt) (msFromTime ?lt)) + k * msPerMinute"
    by (simp add: MakeDate_def MakeTime_def algebra_simps)
  then show ?thesis
    by (simp add: setMinutes_def getMinutes_def Let_def wall_decompose)
qed


lemma digit_cases: "d < 10 \<Longrightarrow> d \<in> {0, 1, 2, 3, 4, 5, 6, 7, 8, 9::nat}"
  by auto

lemma digitVal_digitChar: "d < 10 \<Longrightarrow> digitVal (digitChar d) = Some d"
  using digit_cases [of d] by (auto simp: digitVal_def digitChar_def)

lemma digitChar_not_colon: "d < 10 \<Longrightarrow> digitChar d \<noteq> CHR '':''"
  using digit_cases [of d] by (auto simp: digitChar_def)

lemma digitsValue_snoc:
  "digitsValue acc (s @ [c]) =
     (case digitsValue acc s of None \<Rightarrow> None
      | Some v \<Rightarrow> (case digitVal c of None \<Rightarrow> None | Some d \<Rightarrow> Some (10 * v + d)))"
  by (induction s arbitrary: acc) (auto split: option.splits)

lemma digitsValue_toString: "digitsValue 0 (toString n) = Some n"
proof (induction n rule: toString.induct)
  case (1 n)
  show ?case
  proof (cases "n < 10")
    case True
    then show ?thesis by (simp add: toString.simps [of n] digitVal_digitChar)
  next
    case False
    with 1 have "digitsValue 0 (toString (n div 10)) = Some (n div 10)" by simp
    with False show ?thesis
      by (simp add: toString.simps [of n] digitsValue_snoc digitVal_digitChar)
  qed
qed

lemma digitsValue_zeros: "digitsValue 0 (replicate k CHR ''0'' @ s) = digitsValue 0 s"
  by (induction k) (simp_all add: digitVal_def)

lemma Number_js_padded: "Number_js (padStart len CHR ''0'' (toString n)) = Some (int n)"
  by (simp add: Number_js_def padStart_def digitsValue_zeros digitsValue_toString)

lemma toString_no_colon: "CHR '':'' \<notin> set (toString n)"
proof (induction n rule: toString.induct)
  case (1 n)
  show ?case
  proof (cases "n < 10")
    case True
    then show ?thesis using digitChar_not_colon [of n] by (auto simp: toString.simps [of n])
  next
    case False
    with 1 have "CHR '':'' \<notin> set (toString (n div 10))" by simp
    with False show ?thesis using digitChar_not_colon [of "n mod 10"]
      by (auto simp: toString.simps [of n])
  qed
qed

lemma padded_no_colon: "CHR '':'' \<notin> set (padStart len CHR ''0'' (toString n))"
  by (auto simp: padStart_def toString_no_colon)

lemma split_js_none: "sep \<notin> set b \<Longrightarrow> split_js sep b = [b]"
  by (induction b) auto

lemma split_js_first: "sep \<notin> set a \<Longrightarrow> split_js sep (a @ sep # b) = a # split_js sep b"
  by (induction a) auto

lemma parseHM_hhmm: "parseHM (hhmm h m) = (Some (int h), Some (int m))"
proof -
  have "split_js CHR '':'' (hhmm h m)
        = [padStart 2 CHR ''0'' (toString h), padStart 2 CHR ''0'' (toString m)]"
    unfolding hhmm_def using split_js_first [OF padded_no_colon] split_js_none [OF padded_no_colon]
    by simp
  then show ?thesis
    by (simp add: parseHM_def numberAt_def Number_js_padded)
qed

lemma minuteLoop_row: "minuteLoop h 0 = [hhmm h 0, hhmm h 15, hhmm h 30, hhmm h 45]"
  by (simp add: minuteLoop.simps)

lemma upt_four:
  assumes "h < 24"
  shows "[4 * h..<96] = [4 * h, 4 * h + 1, 4 * h + 2, 4 * h + 3] @ [4 * (h + 1)..<96]"
proof -
  have e: "4 * (h + 1) = Suc (Suc (Suc (Suc (4 * h))))" by simp
  show ?thesis unfolding e using assms by (simp add: upt_conv_Cons)
qed

lemma slotOf_row: "map slotOf [4 * h, 4 * h + 1, 4 * h + 2, 4 * h + 3] = minuteLoop h 0"
proof -
  have "(4 * h) div 4 = h" "(4 * h + 1) div 4 = h" "(4 * h + 2) div 4 = h" "(4 * h + 3) div 4 = h"
    "(4 * h) mod 4 = 0" "(4 * h + 1) mod 4 = 1" "(4 * h + 2) mod 4 = 2" "(4 * h + 3) mod 4 = 3"
    by presburger+
  then show ?thesis
    by (simp only: list.map slotOf_def minuteLoop_row) simp
qed

lemma hourLoop_eq: "hour \<le> 24 \<Longrightarrow> hourLoop hour = map slotOf [4 * hour..<96]"
proof (induction hour rule: hourLoop.induct)
  case (1 hour)
  show ?case
  proof (cases "hour < 24")
    case True
    with 1 have "hourLoop (hour + 1) = map slotOf [4 * (hour + 1)..<96]" by simp
    with True show ?thesis
      unfolding hourLoop.simps [of hour] upt_four [OF True] map_append slotOf_row by simp
  next
    case False
    with 1 have "hour = 24" by simp
    then show ?thesis by (simp add: hourLoop.simps)
  qed
qed

lemma TIME_SLOTS_eq: "TIME_SLOTS = map slotOf [0..<96]"
  using hourLoop_eq [of 0] by (simp add: TIME_SLOTS_def generateTimeSlots_def)

lemma slotIsLater_slotOf:
  assumes "0 \<le> cm" "cm < 60"
  shows "slotIsLater ch cm (slotOf k) \<longleftrightarrow> 60 * ch + cm < 15 * int k"
proof -
  have k: "int k = 4 * int (k div 4) + int (k mod 4)" by presburger
  have r: "int (k mod 4) < 4" "0 \<le> int (k mod 4)" by simp_all
  show ?thesis
    unfolding slotOf_def slotIsLater_def parseHM_hhmm using assms k r
    by (auto simp del: of_nat_mod of_nat_div)
qed

lemma filter_from: "filter (\<lambda>k. a \<le> k) [0..<n] = [a..<n]"
  by (induction n) (auto simp: upt_Suc_append not_le less_Suc_eq_le)

lemma later_iff: "0 \<le> c \<Longrightarrow> c < 15 * int k \<longleftrightarrow> Suc (nat c div 15) \<le> k"
  by linarith

lemma filter_slots:
  assumes "0 \<le> ch" "0 \<le> cm" "cm < 60"
  shows "filter (slotIsLater ch cm) TIME_SLOTS = map slotOf [Suc (nat (60 * ch + cm) div 15)..<96]"
proof -
  have "0 \<le> 60 * ch + cm" using assms by simp
  then have "(\<lambda>k. slotIsLater ch cm (slotOf k)) = (\<lambda>k. Suc (nat (60 * ch + cm) div 15) \<le> k)"
    using slotIsLater_slotOf [OF assms(2,3)] later_iff by presburger
  then show ?thesis
    by (simp add: TIME_SLOTS_eq filter_map comp_def filter_from)
qed

section \<open>Properties of the meeting form\<close>

lemma midnight_separates:
  assumes "localDay z (newDateYMD z a) = a" "localDay z (newDateYMD z b) = b"
  shows "newDateYMD z a = newDateYMD z b \<longleftrightarrow> a = b"
  using assms by metis

text \<open>
  Claim C2. Let the browser resolve local midnight of the day of \<open>now\<close> and of the day of
  the candidate date to instants of those days. If the candidate date is not the calendar
  day of \<open>now\<close>, \<open>getAvailableTimeSlots\<close> returns all 96 slots from \<open>00:00\<close> to \<open>23:45\<close> in
  ascending order. If it is today, it returns the slots strictly later than the time of
  day of \<open>now\<close>, in the same order: the slot of quarter \<open>k\<close> is kept exactly when
  \<open>15 * k\<close> minutes exceed the minutes of \<open>now\<close> since midnight. At 14:32 the first slot is
  \<open>14:45\<close>; from 23:45 on the result is empty.
\<close>

theorem getAvailableTimeSlots_today_filter:
  assumes "localDay z (newDateYMD z (localDay z now)) = localDay z now"
      and "localDay z (newDateYMD z (localDay z d)) = localDay z d"
  shows "(localDay z d \<noteq> localDay z now \<longrightarrow>
            getAvailableTimeSlots z now (Some d) = map slotOf [0..<96])
    \<and> (localDay z d = localDay z now \<longrightarrow>
            getAvailableTimeSlots z now (Some d)
              = map slotOf [Suc (nat (60 * getHours z now + getMinutes z now) div 15)..<96])
    \<and> (localDay z d = localDay z now \<and> getHours z now = 14 \<and> getMinutes z now = 32 \<longrightarrow>
            hd (getAvailableTimeSlots z now (Some d)) = ''14:45'')
    \<and> (localDay z d = localDay z now \<and> 23 * 60 + 45 \<le> 60 * getHours z now + getMinutes z now \<longrightarrow>
            getAvailableTimeSlots z now (Some d) = [])
    \<and> length (map slotOf [0..<96]) = 96 \<and> slotOf 0 = ''00:00'' \<and> slotOf 95 = ''23:45''"
proof -
  have sep: "newDateYMD z (localDay z d) = newDateYMD z (localDay z now) \<longleftrightarrow> localDay z d = localDay z now"
    using midnight_separates [OF assms(2) assms(1)] .
  have other: "localDay z d \<noteq> localDay z now \<longrightarrow> getAvailableTimeSlots z now (Some d) = map slotOf [0..<96]"
    using sep by (simp add: getAvailableTimeSlots_def TIME_SLOTS_eq)
  have today: "getAvailableTimeSlots z now (Some d)
              = map slotOf [Suc (nat (60 * getHours z now + getMinutes z now) div 15)..<96]"
    if "localDay z d = localDay z now"
    using that getHours_range [of z now] getMinutes_range [of z now]
    by (simp add: getAvailableTimeSlots_def filter_slots)
  have ex1: "hd (getAvailableTimeSlots z now (Some d)) = ''14:45''"
    if "localDay z d = localDay z now" "getHours z now = 14" "getMinutes z now = 32"
    using today [OF that(1)] that(2,3)
    by (simp add: upt_conv_Cons slotOf_def hhmm_def padStart_def toString.simps digitChar_def)
  have ex2: "getAvailableTimeSlots z now (Some d) = []"
    if "localDay z d = localDay z now" "23 * 60 + 45 \<le> 60 * getHours z now + getMinutes z now"
  proof -
    have "15 * 95 \<le> nat (60 * getHours z now + getMinutes z now)"
      using that(2) by simp
    then have "95 \<le> nat (60 * getHours z now + getMinutes z now) div 15"
      by (simp add: less_eq_div_iff_mult_less_eq)
    then show ?thesis using today [OF that(1)] by simp
  qed
  have ends: "slotOf 0 = ''00:00''" "slotOf 95 = ''23:45''"
    by (simp_all add: slotOf_def hhmm_def padStart_def toString.simps digitChar_def)
  have len: "length (map slotOf [0..<96]) = 96" by simp
  show ?thesis using other today ex1 ex2 ends len by blast
qed

theorem getAvailableTimeSlots_today_filter_witness:
  "getAvailableTimeSlots UTC 1710081120000 (Some 1710028800000) = map slotOf [59..<96]
   \<and> hd (getAvailableTimeSlots UTC 1710081120000 (Some 1710028800000)) = ''14:45''
   \<and> getAvailableTimeSlots UTC 1710081120000 (Some 1710115200000) = map slotOf [0..<96]"
  using getAvailableTimeSlots_today_filter [of UTC 1710081120000 1710028800000]
    getAvailableTimeSlots_today_filter [of UTC 1710081120000 1710115200000]
  by (simp add: UTC_def fixedZone_def localDay_def newDateYMD_def LocalTime_def Day_def
      MakeDate_def msPerDay_def getHours_def getMinutes_def HourFromTime_def MinFromTime_def
      msPerHour_def msPerMinute_def slotOf_def hhmm_def padStart_def toString.simps digitChar_def)

lemma Math_round_ratio_real:
  "b > 0 \<Longrightarrow> Math_round_ratio a b = \<lfloor>real_of_int a / real_of_int b + 1 / 2\<rfloor>"
proof -
  assume b: "b > 0"
  have "real_of_int a / real_of_int b + 1 / 2 = real_of_int (2 * a + b) / real_of_int (2 * b)"
    using b by (simp add: field_simps)
  then show ?thesis
    unfolding Math_round_ratio_def by (simp only: floor_divide_of_int_eq)
qed

text \<open>
  Claim C5. When a stored meeting is loaded for editing, the duration shown is decided by
  the rounded number of minutes between the two instants, \<open>round ((end - start) / 60000)\<close>
  with halves going up: the option \<open>30\<close> if that number is at most 30, the option \<open>60\<close>
  otherwise. So \<open>30\<close> is selected exactly when the meeting is shorter than 30.5 minutes.
  This holds for every pair of instants.
\<close>

theorem loadMeeting_duration:
  "duration (loadMeeting z meeting st)
     = (if \<lfloor>real_of_int (end_time meeting - start_time meeting) / 60000 + 1 / 2\<rfloor> \<le> 30
        then ''30'' else ''60'')
   \<and> (duration (loadMeeting z meeting st) = ''30''
        \<longleftrightarrow> end_time meeting - start_time meeting < 30 * 60000 + 30000)"
proof -
  have r: "Math_round_ratio (end_time meeting - start_time meeting) 60000
        = \<lfloor>real_of_int (end_time meeting - start_time meeting) / 60000 + 1 / 2\<rfloor>"
    using Math_round_ratio_real [of 60000 "end_time meeting - start_time meeting"] by simp
  have d: "duration (loadMeeting z meeting st)
     = (if Math_round_ratio (end_time meeting - start_time meeting) 60000 \<le> 30 then ''30'' else ''60'')"
    by (simp add: loadMeeting_def Let_def)
  have k: "Math_round_ratio x 60000 \<le> 30 \<longleftrightarrow> x < 30 * 60000 + 30000" for x
  proof -
    define q where "q = (2 * x + 60000) div 120000"
    define r where "r = (2 * x + 60000) mod 120000"
    have "2 * x + 60000 = 120000 * q + r" unfolding q_def r_def by simp
    moreover have "0 \<le> r" "r < 120000" unfolding r_def by simp_all
    ultimately have "q \<le> 30 \<longleftrightarrow> x < 30 * 60000 + 30000" by linarith
    then show ?thesis unfolding q_def Math_round_ratio_def by simp
  qed
  have "duration (loadMeeting z meeting st) = ''30''
        \<longleftrightarrow> Math_round_ratio (end_time meeting - start_time meeting) 60000 \<le> 30"
    unfolding d by simp
  then have "duration (loadMeeting z meeting st) = ''30''
        \<longleftrightarrow> end_time meeting - start_time meeting < 30 * 60000 + 30000"
    unfolding k .
  moreover note d [unfolded r]
  ultimately show ?thesis by blast
qed

theorem loadMeeting_duration_witness:
  "duration (loadMeeting UTC
      \<lparr>meeting_id = ''m1'', subject = ''Review'', start_time = 1710061200000,
        end_time = 1710063900000, status = ''scheduled''\<rparr>
      \<lparr>timezone = Asia_Kolkata, startDate = None, startTime = ''09:00'', duration = ''60''\<rparr>)
   = ''60''"
  using loadMeeting_duration [of UTC
      "\<lparr>meeting_id = ''m1'', subject = ''Review'', start_time = 1710061200000,
        end_time = 1710063900000, status = ''scheduled''\<rparr>"
      "\<lparr>timezone = Asia_Kolkata, startDate = None, startTime = ''09:00'', duration = ''60''\<rparr>"]
  by simp

section \<open>Properties of the calendar grid\<close>

lemma UTC_clock:
  "getHours UTC t = (t div 3600000) mod 24" "getMinutes UTC t = (t div 60000) mod 60"
  by (simp_all add: UTC_def fixedZone_def LocalTime_def getHours_def getMinutes_def
      HourFromTime_def MinFromTime_def msPerHour_def msPerMinute_def)

text \<open>
  Claim C8. For every meeting, with the window from 8 to 20: the top is
  (start hour - 8) * 60 + start minute, and the height is
  (end hour - start hour) * 60 + (end minute - start minute), but at least 30. A meeting
  is left out of the column exactly when its top is below 0 or above 720, and is otherwise
  rendered at its position. A meeting from 09:00 to 09:30 has top 60 and height 30, one
  from 09:00 to 09:15 has top 60 and height 30 by the minimum, and one whose top is -60 is
  left out.
\<close>

theorem getMeetingPosition_layout:
  "top_offset (getMeetingPosition z m)
     = (getHours z (start_time m) - 8) * 60 + getMinutes z (start_time m)
   \<and> height (getMeetingPosition z m)
     = max ((getHours z (end_time m) - getHours z (start_time m)) * 60
            + (getMinutes z (end_time m) - getMinutes z (start_time m))) 30
   \<and> (renderMeeting z m = None
        \<longleftrightarrow> top_offset (getMeetingPosition z m) < 0 \<or> 720 < top_offset (getMeetingPosition z m))
   \<and> (renderMeeting z m \<noteq> None \<longrightarrow> renderMeeting z m = Some (m, getMeetingPosition z m))
   \<and> (getHours z (start_time m) = 9 \<and> getMinutes z (start_time m) = 0
        \<and> getHours z (end_time m) = 9 \<and> getMinutes z (end_time m) = 30
        \<longrightarrow> getMeetingPosition z m = \<lparr>top_offset = 60, height = 30\<rparr>)
   \<and> (getHours z (start_time m) = 9 \<and> getMinutes z (start_time m) = 0
        \<and> getHours z (end_time m) = 9 \<and> getMinutes z (end_time m) = 15
        \<longrightarrow> getMeetingPosition z m = \<lparr>top_offset = 60, height = 30\<rparr>)
   \<and> (top_offset (getMeetingPosition z m) = - 60 \<longrightarrow> renderMeeting z m = None)"
  by (simp add: getMeetingPosition_def renderMeeting_def Let_def WORK_START_HOUR_def WORK_END_HOUR_def)

theorem getMeetingPosition_layout_witness:
  "renderMeeting UTC \<lparr>meeting_id = ''m1'', subject = ''Review'', start_time = 1710061200000,
        end_time = 1710063000000, status = ''scheduled''\<rparr>
    = Some (\<lparr>meeting_id = ''m1'', subject = ''Review'', start_time = 1710061200000,
        end_time = 1710063000000, status = ''scheduled''\<rparr>, \<lparr>top_offset = 60, height = 30\<rparr>)
  \<and> getMeetingPosition UTC \<lparr>meeting_id = ''m2'', subject = ''Call'', start_time = 1710061200000,
        end_time = 1710062100000, status = ''scheduled''\<rparr> = \<lparr>top_offset = 60, height = 30\<rparr>
  \<and> renderMeeting UTC \<lparr>meeting_id = ''m3'', subject = ''Early'', start_time = 1710054000000,
        end_time = 1710055800000, status = ''scheduled''\<rparr> = None"
proof -
  let ?m1 = "\<lparr>meeting_id = ''m1'', subject = ''Review'', start_time = 1710061200000,
        end_time = 1710063000000, status = ''scheduled''\<rparr>"
  let ?m2 = "\<lparr>meeting_id = ''m2'', subject = ''Call'', start_time = 1710061200000,
        end_time = 1710062100000, status = ''scheduled''\<rparr>"
  let ?m3 = "\<lparr>meeting_id = ''m3'', subject = ''Early'', start_time = 1710054000000,
        end_time = 1710055800000, status = ''scheduled''\<rparr>"
  have c1: "getHours UTC (start_time ?m1) = 9 \<and> getMinutes UTC (start_time ?m1) = 0
        \<and> getHours UTC (end_time ?m1) = 9 \<and> getMinutes UTC (end_time ?m1) = 30"
    by (simp add: UTC_clock)
  have c2: "getHours UTC (start_time ?m2) = 9 \<and> getMinutes UTC (start_time ?m2) = 0
        \<and> getHours UTC (end_time ?m2) = 9 \<and> getMinutes UTC (end_time ?m2) = 15"
    by (simp add: UTC_clock)
  have c3: "(getHours UTC (start_time ?m3) - 8) * 60 + getMinutes UTC (start_time ?m3) = - 60"
    by (simp add: UTC_clock)
  have p1: "getMeetingPosition UTC ?m1 = \<lparr>top_offset = 60, height = 30\<rparr>"
    using getMeetingPosition_layout [of UTC ?m1] c1 by blast
  have "\<not> (top_offset (getMeetingPosition UTC ?m1) < 0 \<or> 720 < top_offset (getMeetingPosition UTC ?m1))"
    unfolding p1 by simp
  then have r1: "renderMeeting UTC ?m1 = Some (?m1, \<lparr>top_offset = 60, height = 30\<rparr>)"
    using getMeetingPosition_layout [of UTC ?m1] unfolding p1 by blast
  have p2: "getMeetingPosition UTC ?m2 = \<lparr>top_offset = 60, height = 30\<rparr>"
    using getMeetingPosition_layout [of UTC ?m2] c2 by blast
  have "top_offset (getMeetingPosition UTC ?m3) = - 60"
    using getMeetingPosition_layout [of UTC ?m3] c3 by presburger
  then have r3: "renderMeeting UTC ?m3 = None"
    using getMeetingPosition_layout [of UTC ?m3] by blast
  show ?thesis using r1 p2 r3 by blast
qed

text \<open>
  Claim C9, as amended. The offset of the marker of the current time is computed as the
  top of a meeting that starts at \<open>now\<close>, (hour - 8) * 60 + minute. The marker is suppressed
  exactly when that offset is below 0 or at least 720, and is otherwise shown at it. So it
  is suppressed exactly when a meeting starting at \<open>now\<close> is left out of the column, or
  \<open>now\<close> is 20:00 sharp, where the offset 720 still renders a meeting.
\<close>

theorem CurrentTimeIndicator_marker:
  "top_offset (getMeetingPosition z (m\<lparr>start_time := now\<rparr>))
     = (getHours z now - 8) * 60 + getMinutes z now
   \<and> (CurrentTimeIndicator z now = None
        \<longleftrightarrow> top_offset (getMeetingPosition z (m\<lparr>start_time := now\<rparr>)) < 0
            \<or> 720 \<le> top_offset (getMeetingPosition z (m\<lparr>start_time := now\<rparr>)))
   \<and> (CurrentTimeIndicator z now \<noteq> None \<longrightarrow>
        CurrentTimeIndicator z now
          = Some (top_offset (getMeetingPosition z (m\<lparr>start_time := now\<rparr>))))
   \<and> (CurrentTimeIndicator z now = None
        \<longleftrightarrow> renderMeeting z (m\<lparr>start_time := now\<rparr>) = None
            \<or> (getHours z now = 20 \<and> getMinutes z now = 0))"
proof -
  define hr where "hr = getHours z now"
  define mi where "mi = getMinutes z now"
  have r: "0 \<le> mi" "mi < 60"
    using getMinutes_range [of z now] by (simp_all add: mi_def)
  have t: "top_offset (getMeetingPosition z (m\<lparr>start_time := now\<rparr>)) = (hr - 8) * 60 + mi"
    by (simp add: getMeetingPosition_def Let_def WORK_START_HOUR_def hr_def mi_def)
  have c: "CurrentTimeIndicator z now
        = (if hr < 8 \<or> 20 \<le> hr then None else Some ((hr - 8) * 60 + mi))"
    by (simp add: CurrentTimeIndicator_def Let_def WORK_START_HOUR_def WORK_END_HOUR_def
        hr_def mi_def)
  have e: "renderMeeting z (m\<lparr>start_time := now\<rparr>) = None
        \<longleftrightarrow> (hr - 8) * 60 + mi < 0 \<or> 720 < (hr - 8) * 60 + mi"
    using t by (simp add: renderMeeting_def Let_def WORK_START_HOUR_def WORK_END_HOUR_def)
  have 1: "hr < 8 \<or> 20 \<le> hr \<longleftrightarrow> (hr - 8) * 60 + mi < 0 \<or> 720 \<le> (hr - 8) * 60 + mi"
    using r by presburger
  have 2: "hr < 8 \<or> 20 \<le> hr
        \<longleftrightarrow> ((hr - 8) * 60 + mi < 0 \<or> 720 < (hr - 8) * 60 + mi) \<or> (hr = 20 \<and> mi = 0)"
    using r by presburger
  have k0: "CurrentTimeIndicator z now = None \<longleftrightarrow> hr < 8 \<or> 20 \<le> hr"
    unfolding c by simp
  have k1: "CurrentTimeIndicator z now = None
        \<longleftrightarrow> top_offset (getMeetingPosition z (m\<lparr>start_time := now\<rparr>)) < 0
            \<or> 720 \<le> top_offset (getMeetingPosition z (m\<lparr>start_time := now\<rparr>))"
    unfolding t using k0 1 by blast
  have k2: "CurrentTimeIndicator z now \<noteq> None \<longrightarrow>
        CurrentTimeIndicator z now
          = Some (top_offset (getMeetingPosition z (m\<lparr>start_time := now\<rparr>)))"
    unfolding t c by simp
  have "CurrentTimeIndicator z now = None
        \<longleftrightarrow> renderMeeting z (m\<lparr>start_time := now\<rparr>) = None \<or> (hr = 20 \<and> mi = 0)"
    unfolding e using k0 2 by blast
  then have k3: "CurrentTimeIndicator z now = None
        \<longleftrightarrow> renderMeeting z (m\<lparr>start_time := now\<rparr>) = None
            \<or> (getHours z now = 20 \<and> getMinutes z now = 0)"
    unfolding hr_def mi_def .
  note t [unfolded hr_def mi_def]
  then show ?thesis using k1 k2 k3 by blast
qed

theorem CurrentTimeIndicator_marker_witness:
  "CurrentTimeIndicator UTC 1710081120000 = Some 392
   \<and> CurrentTimeIndicator UTC 1710054000000 = None"
proof -
  let ?m = "\<lparr>meeting_id = ''m1'', subject = ''Review'', start_time = 0, end_time = 0,
        status = ''scheduled''\<rparr>"
  have a: "(getHours UTC 1710081120000 - 8) * 60 + getMinutes UTC 1710081120000 = 392"
    "(getHours UTC 1710054000000 - 8) * 60 + getMinutes UTC 1710054000000 = - 60"
    by (simp_all add: UTC_clock)
  note t1 = CurrentTimeIndicator_marker [of UTC 1710081120000 ?m, unfolded a]
  note t2 = CurrentTimeIndicator_marker [of UTC 1710054000000 ?m, unfolded a]
  have p1: "top_offset (getMeetingPosition UTC (?m\<lparr>start_time := 1710081120000\<rparr>)) = 392"
    using t1 by blast
  have p2: "top_offset (getMeetingPosition UTC (?m\<lparr>start_time := 1710054000000\<rparr>)) = - 60"
    using t2 by blast
  have n1: "CurrentTimeIndicator UTC 1710081120000 = None
        \<longleftrightarrow> top_offset (getMeetingPosition UTC (?m\<lparr>start_time := 1710081120000\<rparr>)) < 0
            \<or> 720 \<le> top_offset (getMeetingPosition UTC (?m\<lparr>start_time := 1710081120000\<rparr>))"
    using t1 by blast
  have n2: "CurrentTimeIndicator UTC 1710054000000 = None
        \<longleftrightarrow> top_offset (getMeetingPosition UTC (?m\<lparr>start_time := 1710054000000\<rparr>)) < 0
            \<or> 720 \<le> top_offset (getMeetingPosition UTC (?m\<lparr>start_time := 1710054000000\<rparr>))"
    using t2 by blast
  have "CurrentTimeIndicator UTC 1710081120000 \<noteq> None"
    unfolding n1 p1 by simp
  then have "CurrentTimeIndicator UTC 1710081120000
        = Some (top_offset (getMeetingPosition UTC (?m\<lparr>start_time := 1710081120000\<rparr>)))"
    using t1 by blast
  then have "CurrentTimeIndicator UTC 1710081120000 = Some 392"
    unfolding p1 .
  moreover have "CurrentTimeIndicator UTC 1710054000000 = None"
    unfolding n2 p2 by simp
  ultimately show ?thesis by blast
qed

text \<open>
  The claim as it is written takes the window from the test that leaves a meeting out of
  the column, a top outside 0 to 720. At 20:00 sharp the two differ: the marker is
  suppressed, and a meeting that starts at that instant is rendered at top 720.
\<close>

theorem CurrentTimeIndicator_window_end:
  "CurrentTimeIndicator UTC 1710100800000 = None
   \<and> renderMeeting UTC
        \<lparr>meeting_id = ''m4'', subject = ''Late'', start_time = 1710100800000,
          end_time = 1710102600000, status = ''scheduled''\<rparr>
      = Some (\<lparr>meeting_id = ''m4'', subject = ''Late'', start_time = 1710100800000,
                end_time = 1710102600000, status = ''scheduled''\<rparr>,
              \<lparr>top_offset = 720, height = 30\<rparr>)"
  by (simp add: CurrentTimeIndicator_def renderMeeting_def getMeetingPosition_def Let_def
      UTC_clock WORK_START_HOUR_def WORK_END_HOUR_def)

section \<open>Properties of the time resolution\<close>

lemma hhmm_nonempty: "hhmm h m \<noteq> []"
  by (simp add: hhmm_def)

lemma fixedZone_local: "isLocalTimeOf (fixedZone c) w"
  by (simp add: isLocalTimeOf_def fixedZone_def LocalTime_def)

lemma format_of_wall:
  assumes "h < 24" "m < 60"
    and "LocalTime z t = MakeDate D (MakeTime (int h) (int m) 0 0)"
  shows "formatHHmm z t = hhmm h m" and "localDay z t = D"
  using assms wall_fields [of "int h" "int m" D]
  by (simp_all add: formatHHmm_def getHours_def getMinutes_def localDay_def)

lemma setHours_local:
  assumes "isLocalTimeOf z (MakeDate (localDay z d) (MakeTime h m 0 0))"
  shows "LocalTime z (setHours z d h m 0 0) = MakeDate (localDay z d) (MakeTime h m 0 0)"
  using assms by (simp add: isLocalTimeOf_def setHours_def localDay_def)

lemma hhmm_literals:
  "hhmm 2 30 = ''02:30''" "hhmm 3 30 = ''03:30''" "hhmm 9 0 = ''09:00''"
  "hhmm 1 45 = ''01:45''" "hhmm 23 45 = ''23:45''" "hhmm 0 15 = ''00:15''"
  by (simp_all add: hhmm_def padStart_def toString.simps digitChar_def)

lemma parse_literals:
  "parseHM ''02:30'' = (Some 2, Some 30)" "parseHM ''03:30'' = (Some 3, Some 30)"
  "parseHM ''09:00'' = (Some 9, Some 0)" "parseHM ''01:45'' = (Some 1, Some 45)"
  "parseHM ''23:45'' = (Some 23, Some 45)"
  unfolding hhmm_literals [symmetric] by (simp_all add: parseHM_hhmm)

lemma fixedZone_sel: "offsetAt (fixedZone c) t = c" "instantOf (fixedZone c) w = w - c"
  by (simp_all add: fixedZone_def)

lemma Kolkata_sel: "offsetAt Asia_Kolkata t = 19800000" "instantOf Asia_Kolkata w = w - 19800000"
  by (simp_all add: Asia_Kolkata_def fixedZone_def msPerMinute_def)

lemma UTC_sel: "offsetAt UTC t = 0" "instantOf UTC w = w"
  by (simp_all add: UTC_def fixedZone_def)

lemma New_York_sel:
  "offsetAt America_New_York t = (if t < 1710054000000 then - 18000000 else - 14400000)"
  "instantOf America_New_York w = (if w < 1710039600000 then w + 18000000 else w + 14400000)"
  by (simp_all add: America_New_York_def msPerHour_def)

lemma zone_local: "isLocalTimeOf UTC x" "isLocalTimeOf Asia_Kolkata x"
  by (simp_all add: UTC_def Asia_Kolkata_def fixedZone_local)

lemma wall_shift:
  assumes "0 \<le> n"
  shows "MakeDate D 0 + n * msPerMinute
         = MakeDate (D + n div 1440)
             (MakeTime ((n mod 1440) div 60) (n mod 60) 0 0)"
proof -
  define q where "q = n div 1440"
  define r where "r = n mod 1440"
  define hh where "hh = r div 60"
  define mm where "mm = r mod 60"
  have 1: "n = 1440 * q + r" unfolding q_def r_def by simp
  have 2: "r = 60 * hh + mm" unfolding hh_def mm_def by simp
  have 3: "n mod 60 = mm" unfolding mm_def r_def by (simp add: mod_mod_cancel)
  have "D * 86400000 + n * 60000 = (D + q) * 86400000 + (hh * 3600000 + mm * 60000)"
    unfolding 1 2 by simp
  then show ?thesis
    unfolding 3 q_def [symmetric] r_def [symmetric] hh_def [symmetric]
    by (simp add: MakeDate_def MakeTime_def msPerDay_def msPerHour_def msPerMinute_def)
qed

lemma wall_plus:
  "MakeDate D (MakeTime h m 0 0) + dur * msPerMinute = MakeDate D 0 + (60 * h + m + dur) * msPerMinute"
  by (simp add: MakeDate_def MakeTime_def msPerHour_def msPerMinute_def algebra_simps)

lemma calculateEndDateTime_local:
  assumes "isLocalTimeOf z (MakeDate (localDay z d) (MakeTime (int h) (int m) 0 0))"
  shows "calculateEndDateTime z d (hhmm h m) dur
         = Some (instantOf z (MakeDate (localDay z d) (MakeTime (int h) (int m) 0 0) + dur * msPerMinute))"
  using setHours_local [OF assms]
  by (simp add: calculateEndDateTime_def parseHM_hhmm Let_def setMinutes_shift)

text \<open>
  No instant shows 02:30 of 2024-03-10 on a clock with the offsets of New York, however
  the zone reads that wall-clock moment.
\<close>

lemma New_York_gap: "\<not> isLocalTimeOf (America_New_York\<lparr>instantOf := r\<rparr>) 1710037800000"
proof -
  have "t + offsetAt America_New_York t \<noteq> 1710037800000" for t
    by (simp add: New_York_sel)
  then show ?thesis
    by (simp add: isLocalTimeOf_def LocalTime_def)
qed

text \<open>
  What holds of a change to the time zone that is already selected: when the selected date
  and time of day are a local time both of the browser's zone and of the selected time
  zone, the time zone, the time of day and the duration stay as they are, and the new date
  is on the same calendar day and shows the same time of day.
\<close>

lemma handleTimezoneChange_same_zone:
  fixes z :: zone and st :: form_state and d :: int and h m :: nat
  defines "w \<equiv> MakeDate (localDay z d) (MakeTime (int h) (int m) 0 0)"
  assumes "startDate st = Some d" "startTime st = hhmm h m" "h < 24" "m < 60"
    and "isLocalTimeOf z w" "isLocalTimeOf (timezone st) w"
  shows "handleTimezoneChange z st (timezone st) = Inr (st\<lparr>startDate := Some (instantOf z w)\<rparr>)
    \<and> localDay z (instantOf z w) = localDay z d
    \<and> formatHHmm z (instantOf z w) = startTime st"
proof -
  let ?dateInOldTz = "setHours z d (int h) (int m) 0 0"
  let ?utcTime = "fromZonedTime z ?dateInOldTz (timezone st)"
  let ?timeInNewTz = "toZonedTime z ?utcTime (timezone st)"
  have 1: "LocalTime z ?dateInOldTz = w"
    using assms(6) unfolding w_def by (rule setHours_local)
  have 2: "?utcTime = instantOf (timezone st) w"
    by (simp add: fromZonedTime_def 1)
  have 3: "?timeInNewTz = instantOf z w"
    using assms(7) by (simp add: toZonedTime_def 2 isLocalTimeOf_def)
  have 4: "LocalTime z (instantOf z w) = MakeDate (localDay z d) (MakeTime (int h) (int m) 0 0)"
    using assms(6) by (simp add: isLocalTimeOf_def w_def)
  have 5: "formatHHmm z (instantOf z w) = hhmm h m" "localDay z (instantOf z w) = localDay z d"
    using format_of_wall [OF assms(4,5) 4] by simp_all
  have "handleTimezoneChange z st (timezone st)
        = Inr (st\<lparr>startDate := Some ?timeInNewTz, startTime := formatHHmm z ?timeInNewTz,
                   timezone := timezone st\<rparr>)"
    using assms(2,3) by (simp add: handleTimezoneChange_def parseHM_hhmm hhmm_nonempty Let_def)
  then have "handleTimezoneChange z st (timezone st) = Inr (st\<lparr>startDate := Some (instantOf z w)\<rparr>)"
    unfolding 3 5 using assms(3) by simp
  then show ?thesis using 5 assms(3) by simp
qed

lemma handleTimezoneChange_same_zone_example:
  "handleTimezoneChange UTC
      \<lparr>timezone = Asia_Kolkata, startDate = Some 1710028800000, startTime = ''23:45'', duration = ''30''\<rparr>
      Asia_Kolkata
   = Inr \<lparr>timezone = Asia_Kolkata, startDate = Some 1710114300000, startTime = ''23:45'', duration = ''30''\<rparr>
   \<and> localDay UTC 1710114300000 = localDay UTC 1710028800000
   \<and> formatHHmm UTC 1710114300000 = ''23:45''"
proof -
  have w: "instantOf UTC (MakeDate (localDay UTC 1710028800000) (MakeTime (int 23) (int 45) 0 0))
           = 1710114300000"
    by (simp add: UTC_sel localDay_def LocalTime_def Day_def MakeDate_def MakeTime_def
        msPerDay_def msPerHour_def msPerMinute_def msPerSecond_def)
  show ?thesis
    using handleTimezoneChange_same_zone [of
        "\<lparr>timezone = Asia_Kolkata, startDate = Some 1710028800000, startTime = ''23:45'', duration = ''30''\<rparr>"
        1710028800000 23 45 UTC]
    unfolding w by (simp add: hhmm_literals UTC_def Asia_Kolkata_def fixedZone_local)
qed

text \<open>
  Claim C4 asks that \<open>handleTimezoneChange\<close> with the time zone that is already selected
  leaves the displayed date and time of day unchanged, for every selected date and time of
  day. The code builds the selection "in the old timezone" with \<open>setHours\<close> on a date of
  the browser. In a browser in New York, with Asia/Kolkata selected, the selection 02:30
  on 2024-03-10 is a time of Asia/Kolkata like any other, but the clock of the browser
  skips it: \<open>setHours\<close> gives 03:30, and re-selecting Asia/Kolkata turns the time of day
  \<open>02:30\<close> into \<open>03:30\<close>. In a browser on UTC the same selection stays \<open>02:30\<close>.
\<close>

theorem handleTimezoneChange_spring_gap:
  "handleTimezoneChange America_New_York
      \<lparr>timezone = Asia_Kolkata, startDate = Some 1710046800000, startTime = ''02:30'',
        duration = ''60''\<rparr>
      Asia_Kolkata
   = Inr \<lparr>timezone = Asia_Kolkata, startDate = Some 1710055800000, startTime = ''03:30'',
          duration = ''60''\<rparr>
   \<and> handleTimezoneChange UTC
      \<lparr>timezone = Asia_Kolkata, startDate = Some 1710028800000, startTime = ''02:30'',
        duration = ''60''\<rparr>
      Asia_Kolkata
   = Inr \<lparr>timezone = Asia_Kolkata, startDate = Some 1710037800000, startTime = ''02:30'',
          duration = ''60''\<rparr>
   \<and> isLocalTimeOf Asia_Kolkata 1710037800000"
proof -
  have a: "setHours America_New_York 1710046800000 2 30 0 0 = 1710055800000"
    by (simp add: setHours_def LocalTime_def New_York_sel Day_def MakeDate_def MakeTime_def
        msPerDay_def msPerHour_def msPerMinute_def msPerSecond_def)
  have b: "fromZonedTime America_New_York 1710055800000 Asia_Kolkata = 1710021600000"
    by (simp add: fromZonedTime_def LocalTime_def New_York_sel Kolkata_sel)
  have c: "toZonedTime America_New_York 1710021600000 Asia_Kolkata = 1710055800000"
    by (simp add: toZonedTime_def LocalTime_def New_York_sel Kolkata_sel)
  have d: "formatHHmm America_New_York 1710055800000 = hhmm 3 30"
    by (simp add: formatHHmm_def getHours_def getMinutes_def HourFromTime_def MinFromTime_def
        LocalTime_def New_York_sel msPerHour_def msPerMinute_def)
  have a': "setHours UTC 1710028800000 2 30 0 0 = 1710037800000"
    by (simp add: setHours_def LocalTime_def UTC_sel Day_def MakeDate_def MakeTime_def
        msPerDay_def msPerHour_def msPerMinute_def msPerSecond_def)
  have b': "fromZonedTime UTC 1710037800000 Asia_Kolkata = 1710018000000"
    by (simp add: fromZonedTime_def LocalTime_def UTC_sel Kolkata_sel)
  have c': "toZonedTime UTC 1710018000000 Asia_Kolkata = 1710037800000"
    by (simp add: toZonedTime_def LocalTime_def UTC_sel Kolkata_sel)
  have d': "formatHHmm UTC 1710037800000 = hhmm 2 30"
    by (simp add: formatHHmm_def UTC_clock)
  have ny: "handleTimezoneChange America_New_York
      \<lparr>timezone = Asia_Kolkata, startDate = Some 1710046800000, startTime = ''02:30'',
        duration = ''60''\<rparr>
      Asia_Kolkata
   = Inr \<lparr>timezone = Asia_Kolkata, startDate = Some 1710055800000, startTime = ''03:30'',
          duration = ''60''\<rparr>"
    by (simp add: handleTimezoneChange_def parse_literals a b c d hhmm_literals)
  have utc: "handleTimezoneChange UTC
      \<lparr>timezone = Asia_Kolkata, startDate = Some 1710028800000, startTime = ''02:30'',
        duration = ''60''\<rparr>
      Asia_Kolkata
   = Inr \<lparr>timezone = Asia_Kolkata, startDate = Some 1710037800000, startTime = ''02:30'',
          duration = ''60''\<rparr>"
    by (simp add: handleTimezoneChange_def parse_literals a' b' c' d' hhmm_literals)
  show ?thesis using ny utc zone_local(2) by blast
qed

text \<open>
  What holds of the end of a meeting: when the start and the start plus the duration, one
  of 30 and 60 minutes, are local times of the browser's zone and of the selected time
  zone, and the selected time zone has the same offset at both, the end wall-clock moment
  is the start wall-clock moment plus the duration, on the calendar day and at the time of
  day that the minutes since midnight give (23:45 plus 30 minutes is 00:15 of the next
  day), and the stored end instant is that many minutes after the stored start instant.
\<close>

lemma calculateEndDateTime_adds_duration:
  fixes z tz :: zone and d dur :: int and h m :: nat
  defines "w0 \<equiv> MakeDate (localDay z d) (MakeTime (int h) (int m) 0 0)"
  assumes "h < 24" "m < 60" "dur = 30 \<or> dur = 60"
    and "isLocalTimeOf z w0" "isLocalTimeOf z (w0 + dur * msPerMinute)"
    and "isLocalTimeOf tz w0" "isLocalTimeOf tz (w0 + dur * msPerMinute)"
    and "offsetAt tz (instantOf tz w0) = offsetAt tz (instantOf tz (w0 + dur * msPerMinute))"
  shows "map_option (LocalTime z) (calculateEndDateTime z d (hhmm h m) dur)
           = Some (w0 + dur * msPerMinute)
    \<and> map_option (localDay z) (calculateEndDateTime z d (hhmm h m) dur)
           = Some (localDay z d + (60 * int h + int m + dur) div 1440)
    \<and> map_option (formatHHmm z) (calculateEndDateTime z d (hhmm h m) dur)
           = Some (hhmm (nat (((60 * int h + int m + dur) mod 1440) div 60))
                        (nat ((60 * int h + int m + dur) mod 60)))
    \<and> buildISODateTime z tz (Some d) (hhmm h m) = Inr (Some (instantOf tz w0))
    \<and> buildEndISODateTime z tz (Some d) (hhmm h m) dur
           = Inr (Some (instantOf tz w0 + dur * msPerMinute))"
proof -
  let ?w1 = "w0 + dur * msPerMinute"
  let ?mins = "60 * int h + int m + dur"
  have e: "calculateEndDateTime z d (hhmm h m) dur = Some (instantOf z ?w1)"
    using assms(5) unfolding w0_def by (rule calculateEndDateTime_local)
  have l: "LocalTime z (instantOf z ?w1) = ?w1"
    using assms(6) by (simp add: isLocalTimeOf_def)
  have tot: "0 \<le> ?mins" using assms(4) by auto
  have hr: "0 \<le> (?mins mod 1440) div 60 \<and> (?mins mod 1440) div 60 < 24"
  proof -
    define r where "r = ?mins mod 1440"
    define hh where "hh = r div 60"
    define mm where "mm = r mod 60"
    have "0 \<le> r" "r < 1440" unfolding r_def by simp_all
    moreover have "r = 60 * hh + mm" unfolding hh_def mm_def by simp
    moreover have "0 \<le> mm" "mm < 60" unfolding mm_def by simp_all
    ultimately have "0 \<le> hh \<and> hh < 24" by linarith
    then show ?thesis unfolding hh_def r_def .
  qed
  have w1: "?w1 = MakeDate (localDay z d + ?mins div 1440)
        (MakeTime (int (nat ((?mins mod 1440) div 60))) (int (nat (?mins mod 60))) 0 0)"
    unfolding w0_def wall_plus wall_shift [OF tot] using hr by simp
  have l': "LocalTime z (instantOf z ?w1)
        = MakeDate (localDay z d + ?mins div 1440)
            (MakeTime (int (nat ((?mins mod 1440) div 60))) (int (nat (?mins mod 60))) 0 0)"
    using l w1 by simp
  have f: "formatHHmm z (instantOf z ?w1)
        = hhmm (nat ((?mins mod 1440) div 60)) (nat (?mins mod 60))"
    "localDay z (instantOf z ?w1) = localDay z d + ?mins div 1440"
    using format_of_wall [OF _ _ l'] hr by simp_all
  have s: "buildISODateTime z tz (Some d) (hhmm h m) = Inr (Some (instantOf tz w0))"
    using setHours_local [OF assms(5) [unfolded w0_def]]
    by (simp add: buildISODateTime_def parseHM_hhmm Let_def fromZonedTime_def w0_def)
  have "instantOf tz ?w1 = instantOf tz w0 + dur * msPerMinute"
    using assms(7,8,9) by (simp add: isLocalTimeOf_def LocalTime_def)
  then have t: "buildEndISODateTime z tz (Some d) (hhmm h m) dur
        = Inr (Some (instantOf tz w0 + dur * msPerMinute))"
    by (simp add: buildEndISODateTime_def e fromZonedTime_def l)
  show ?thesis using e l f s t by simp
qed

lemma calculateEndDateTime_adds_duration_example:
  "map_option (localDay UTC) (calculateEndDateTime UTC 1710028800000 ''23:45'' 30)
     = Some (localDay UTC 1710028800000 + 1)
   \<and> map_option (formatHHmm UTC) (calculateEndDateTime UTC 1710028800000 ''23:45'' 30)
     = Some ''00:15''
   \<and> buildISODateTime UTC Asia_Kolkata (Some 1710028800000) ''23:45'' = Inr (Some 1710094500000)
   \<and> buildEndISODateTime UTC Asia_Kolkata (Some 1710028800000) ''23:45'' 30
     = Inr (Some (1710094500000 + 30 * msPerMinute))"
proof -
  have w0: "MakeDate (localDay UTC 1710028800000) (MakeTime (int 23) (int 45) 0 0) = 1710114300000"
    by (simp add: UTC_sel localDay_def LocalTime_def Day_def MakeDate_def MakeTime_def
        msPerDay_def msPerHour_def msPerMinute_def msPerSecond_def)
  show ?thesis
    using calculateEndDateTime_adds_duration [of 23 45 30 UTC 1710028800000 Asia_Kolkata]
    unfolding w0 by (simp add: zone_local hhmm_literals Kolkata_sel)
qed

text \<open>
  Claim C3 asks that, for every start date, start time of day and duration of 30 or 60
  minutes, the end wall-clock moment is the start wall-clock moment plus the duration, and
  that the stored end instant is that many minutes after the stored start instant. The
  code adds the minutes with \<open>setHours\<close> and \<open>setMinutes\<close> on a date of the browser. In a
  browser in New York, with Asia/Kolkata selected (a zone whose clock never changes), the
  start 01:45 on 2024-03-10 and 30 minutes give the end 03:15, not 02:15, and the stored
  instants are 90 minutes apart. In a browser on UTC the same selection is stored 30
  minutes apart.
\<close>

theorem calculateEndDateTime_spring_gap:
  "calculateEndDateTime America_New_York 1710046800000 ''01:45'' 30 = Some 1710054900000
   \<and> formatHHmm America_New_York 1710054900000 = ''03:15''
   \<and> buildISODateTime America_New_York Asia_Kolkata (Some 1710046800000) ''01:45''
       = Inr (Some 1710015300000)
   \<and> buildEndISODateTime America_New_York Asia_Kolkata (Some 1710046800000) ''01:45'' 30
       = Inr (Some 1710020700000)
   \<and> (1710020700000 :: int) - 1710015300000 = 90 * msPerMinute
   \<and> buildISODateTime UTC Asia_Kolkata (Some 1710028800000) ''01:45''
       = Inr (Some 1710015300000)
   \<and> buildEndISODateTime UTC Asia_Kolkata (Some 1710028800000) ''01:45'' 30
       = Inr (Some 1710017100000)
   \<and> (1710017100000 :: int) - 1710015300000 = 30 * msPerMinute"
proof -
  have a: "setHours America_New_York 1710046800000 1 45 0 0 = 1710053100000"
    by (simp add: setHours_def LocalTime_def New_York_sel Day_def MakeDate_def MakeTime_def
        msPerDay_def msPerHour_def msPerMinute_def msPerSecond_def)
  have b: "getMinutes America_New_York 1710053100000 = 45"
    by (simp add: getMinutes_def MinFromTime_def LocalTime_def New_York_sel msPerMinute_def)
  have c: "setMinutes America_New_York 1710053100000 75 = 1710054900000"
    by (simp add: setMinutes_def Let_def LocalTime_def New_York_sel Day_def HourFromTime_def
        SecFromTime_def msFromTime_def MakeDate_def MakeTime_def
        msPerDay_def msPerHour_def msPerMinute_def msPerSecond_def)
  have e: "calculateEndDateTime America_New_York 1710046800000 ''01:45'' 30 = Some 1710054900000"
    by (simp add: calculateEndDateTime_def parse_literals a b c)
  have f: "formatHHmm America_New_York 1710054900000 = hhmm 3 15"
    by (simp add: formatHHmm_def getHours_def getMinutes_def HourFromTime_def MinFromTime_def
        LocalTime_def New_York_sel msPerHour_def msPerMinute_def)
  have g: "hhmm 3 15 = ''03:15''"
    by (simp add: hhmm_def padStart_def toString.simps digitChar_def)
  have s: "fromZonedTime America_New_York 1710053100000 Asia_Kolkata = 1710015300000"
    by (simp add: fromZonedTime_def LocalTime_def New_York_sel Kolkata_sel)
  have t: "fromZonedTime America_New_York 1710054900000 Asia_Kolkata = 1710020700000"
    by (simp add: fromZonedTime_def LocalTime_def New_York_sel Kolkata_sel)
  have ny: "buildISODateTime America_New_York Asia_Kolkata (Some 1710046800000) ''01:45''
       = Inr (Some 1710015300000)
   \<and> buildEndISODateTime America_New_York Asia_Kolkata (Some 1710046800000) ''01:45'' 30
       = Inr (Some 1710020700000)"
    by (simp add: e buildISODateTime_def buildEndISODateTime_def parse_literals a s t)
  have a': "setHours UTC 1710028800000 1 45 0 0 = 1710035100000"
    by (simp add: setHours_def LocalTime_def UTC_sel Day_def MakeDate_def MakeTime_def
        msPerDay_def msPerHour_def msPerMinute_def msPerSecond_def)
  have b': "getMinutes UTC 1710035100000 = 45"
    by (simp add: UTC_clock)
  have c': "setMinutes UTC 1710035100000 75 = 1710036900000"
    by (simp add: setMinutes_def Let_def LocalTime_def UTC_sel Day_def HourFromTime_def
        SecFromTime_def msFromTime_def MakeDate_def MakeTime_def
        msPerDay_def msPerHour_def msPerMinute_def msPerSecond_def)
  have e': "calculateEndDateTime UTC 1710028800000 ''01:45'' 30 = Some 1710036900000"
    by (simp add: calculateEndDateTime_def parse_literals a' b' c')
  have s': "fromZonedTime UTC 1710035100000 Asia_Kolkata = 1710015300000"
    by (simp add: fromZonedTime_def LocalTime_def UTC_sel Kolkata_sel)
  have t': "fromZonedTime UTC 1710036900000 Asia_Kolkata = 1710017100000"
    by (simp add: fromZonedTime_def LocalTime_def UTC_sel Kolkata_sel)
  have utc: "buildISODateTime UTC Asia_Kolkata (Some 1710028800000) ''01:45''
       = Inr (Some 1710015300000)
   \<and> buildEndISODateTime UTC Asia_Kolkata (Some 1710028800000) ''01:45'' 30
       = Inr (Some 1710017100000)"
    by (simp add: e' buildISODateTime_def buildEndISODateTime_def parse_literals a' s' t')
  have n: "(1710020700000 :: int) - 1710015300000 = 90 * msPerMinute"
    "(1710017100000 :: int) - 1710015300000 = 30 * msPerMinute"
    by (simp_all add: msPerMinute_def)
  show ?thesis using e f g ny utc n by simp
qed

text \<open>
  Claim C1 asks that a selection stored by \<open>buildISODateTime\<close> and loaded again shows the
  original date and time of day in the selected time zone. The load shows the instant on
  the clock of the browser and leaves the time zone of the form alone. With the browser on
  UTC and Asia/Kolkata selected, 09:00 on 2024-03-10 is stored as 03:30 UTC, is shown as
  \<open>03:30\<close> beside the time zone Asia/Kolkata when loaded, and is stored as 22:00 UTC of the
  day before when the form is saved again.
\<close>

theorem loadMeeting_ignores_timezone:
  "buildISODateTime UTC Asia_Kolkata (Some 1710028800000) ''09:00'' = Inr (Some 1710041400000)
   \<and> loadMeeting UTC
        \<lparr>meeting_id = ''m1'', subject = ''Review'', start_time = 1710041400000,
          end_time = 1710045000000, status = ''scheduled''\<rparr>
        \<lparr>timezone = Asia_Kolkata, startDate = None, startTime = ''09:00'', duration = ''60''\<rparr>
      = \<lparr>timezone = Asia_Kolkata, startDate = Some 1710041400000, startTime = ''03:30'',
          duration = ''60''\<rparr>
   \<and> buildISODateTime UTC Asia_Kolkata (Some 1710041400000) ''03:30'' = Inr (Some 1710021600000)"
proof -
  have a: "setHours UTC 1710028800000 9 0 0 0 = 1710061200000"
    "setHours UTC 1710041400000 3 30 0 0 = 1710041400000"
    by (simp_all add: setHours_def LocalTime_def UTC_sel Day_def MakeDate_def MakeTime_def
        msPerDay_def msPerHour_def msPerMinute_def msPerSecond_def)
  have b: "fromZonedTime UTC 1710061200000 Asia_Kolkata = 1710041400000"
    "fromZonedTime UTC 1710041400000 Asia_Kolkata = 1710021600000"
    by (simp_all add: fromZonedTime_def LocalTime_def UTC_sel Kolkata_sel)
  have c: "formatHHmm UTC 1710041400000 = hhmm 3 30"
    by (simp add: formatHHmm_def UTC_clock)
  have d: "Math_round_ratio 3600000 60000 = 60"
    by (simp add: Math_round_ratio_def)
  show ?thesis
    by (simp add: buildISODateTime_def loadMeeting_def parse_literals a b c d hhmm_literals)
qed

text \<open>
  What holds of the load: the date and time of day are recovered when the time zone of the
  form is the zone of the browser and the selection is a local time of it.
\<close>

lemma loadMeeting_roundtrip_in_browser_zone:
  assumes "h < 24" "m < 60"
    and "isLocalTimeOf z (MakeDate (localDay z d) (MakeTime (int h) (int m) 0 0))"
    and "buildISODateTime z z (Some d) (hhmm h m) = Inr (Some s)"
    and "start_time meeting = s"
  shows "startTime (loadMeeting z meeting st) = hhmm h m
    \<and> map_option (localDay z) (startDate (loadMeeting z meeting st)) = Some (localDay z d)"
proof -
  let ?w = "MakeDate (localDay z d) (MakeTime (int h) (int m) 0 0)"
  have "s = instantOf z ?w"
    using assms(4) setHours_local [OF assms(3)]
    by (simp add: buildISODateTime_def parseHM_hhmm Let_def fromZonedTime_def)
  then have "LocalTime z s = ?w"
    using assms(3) by (simp add: isLocalTimeOf_def)
  from format_of_wall [OF assms(1,2) this] show ?thesis
    using assms(5) by (simp add: loadMeeting_def Let_def)
qed

end
